theory Spec2Isabelle
  imports Complex_Main "HOL-Library.AList"
begin

section \<open>The location hub of \<^verbatim>\<open>src/server/websocket.ts\<close>\<close>

text \<open>
  The hub keeps one module-level \<^verbatim>\<open>Map<WS, TrackingClient>\<close>, handles one framed message
  at a time per connection, fans location samples out to subscribers and sweeps stale
  sessions on a timer. The model below follows the TypeScript line by line:
  \<^item> a value read from a parsed frame is a \<open>jsval\<close>; the truthiness tests (\<^verbatim>\<open>!x\<close>) and the
    strict comparison (\<^verbatim>\<open>===\<close>) of the source are functions on it;
  \<^item> the \<^verbatim>\<open>Map\<close> is an association list in insertion order (\<^verbatim>\<open>set\<close> on a present key keeps
    its place, as \<open>AList.update\<close> does);
  \<^item> what the handler cannot decide itself (the socket's \<^verbatim>\<open>readyState\<close>, whether
    \<^verbatim>\<open>ws.send\<close> throws, whether the store rejects a write) is read from an environment
    record \<open>env\<close>;
  \<^item> every effect is recorded in the state \<open>hub\<close>: the registry, the calls of
    \<^verbatim>\<open>ws.send\<close>, the writes the store accepted and the console lines;
  \<^item> a \<^verbatim>\<open>throw\<close> inside the handler's \<^verbatim>\<open>try\<close> is the first component of the pair a step
    returns; the \<^verbatim>\<open>catch\<close> hands it to \<open>handleError\<close>.
  One call of \<open>handleMessage\<close> is one run of the handler with no other handler
  interleaved at its \<^verbatim>\<open>await\<close>s, at the single instant \<open>now\<close>.
\<close>

subsection \<open>JavaScript values\<close>

text \<open>
  Numbers are the rational value of the parsed double: only \<^verbatim>\<open>x === y\<close> and the test
  against zero are taken on them. \<open>JUndefined\<close> is what reading an absent property gives.
\<close>

datatype jsval =
    JUndefined
  | JNull
  | JBool bool
  | JNum rat
  | JStr string
  | JArr "jsval list"
  | JObj "(string \<times> jsval) list"

text \<open>\<^verbatim>\<open>!x\<close> is \<open>\<not> truthy x\<close>: undefined, null, false, 0 and the empty string are falsy.\<close>

fun truthy :: "jsval \<Rightarrow> bool" where
  "truthy JUndefined = False"
| "truthy JNull = False"
| "truthy (JBool b) = b"
| "truthy (JNum n) = (n \<noteq> 0)"
| "truthy (JStr s) = (s \<noteq> [])"
| "truthy (JArr xs) = True"
| "truthy (JObj fs) = True"

text \<open>
  \<^verbatim>\<open>a === b\<close>. Primitives compare by value. Arrays and objects compare by identity, and
  the two sides the source compares come from two different frames, so they are never
  the same object.
\<close>

fun strictEq :: "jsval \<Rightarrow> jsval \<Rightarrow> bool" where
  "strictEq JUndefined JUndefined = True"
| "strictEq JNull JNull = True"
| "strictEq (JBool a) (JBool b) = (a = b)"
| "strictEq (JNum a) (JNum b) = (a = b)"
| "strictEq (JStr a) (JStr b) = (a = b)"
| "strictEq a b = False"

text \<open>
  \<^verbatim>\<open>data.name\<close> for the property names the handler reads. None of them is a property
  of a string, number, boolean or array, so only an object can have one.
  (\<^verbatim>\<open>null.name\<close> throws; \<open>handleMessage\<close> has that branch before it reads a property.)
\<close>

fun getField :: "jsval \<Rightarrow> string \<Rightarrow> jsval" where
  "getField (JObj fs) name = (case map_of fs name of None \<Rightarrow> JUndefined | Some v \<Rightarrow> v)"
| "getField v name = JUndefined"

text \<open>
  \<^verbatim>\<open>x.toString()\<close>: the text of a value, kept as the value it renders. \<^verbatim>\<open>x?.toString()\<close>
  is undefined (\<open>None\<close>) when \<open>x\<close> is undefined or null.
\<close>

datatype jstext = ToString jsval

fun optToString :: "jsval \<Rightarrow> jstext option" where
  "optToString JUndefined = None"
| "optToString JNull = None"
| "optToString v = Some (ToString v)"

text \<open>
  The call \<^verbatim>\<open>x.toString()\<close> can throw a \<^verbatim>\<open>TypeError\<close>. A parsed object that has a property
  of its own named \<^verbatim>\<open>toString\<close> holds a value there that is not a function, so the call
  fails; without one it inherits \<^verbatim>\<open>Object.prototype.toString\<close>. An array joins the texts of
  its elements, rendering undefined and null as the empty text, and the conversion of an
  element that is an object or an array fails in the same cases. Numbers, strings and
  booleans never fail. The same conversion is what a template literal applies.
\<close>

fun toStringThrows :: "jsval \<Rightarrow> bool" where
  "toStringThrows JUndefined = True"
| "toStringThrows JNull = True"
| "toStringThrows (JBool b) = False"
| "toStringThrows (JNum n) = False"
| "toStringThrows (JStr s) = False"
| "toStringThrows (JArr xs) =
     (\<exists>x \<in> set xs. x \<noteq> JUndefined \<and> x \<noteq> JNull \<and> toStringThrows x)"
| "toStringThrows (JObj fs) = (map_of fs ''toString'' \<noteq> None)"

text \<open>\<^verbatim>\<open>x?.toString()\<close> calls nothing when \<open>x\<close> is undefined or null.\<close>

definition optToStringThrows :: "jsval \<Rightarrow> bool" where
  "optToStringThrows v = (v \<noteq> JUndefined \<and> v \<noteq> JNull \<and> toStringThrows v)"

subsection \<open>Sessions, frames, effects\<close>

type_synonym WS = nat

datatype readyState = CONNECTING | OPEN | CLOSING | CLOSED

record TrackingClient =
  ws :: WS
  bookingId :: jsval
  userId :: jsval
  role :: jsval
  lastPing :: "int option"

text \<open>
  An \<^verbatim>\<open>Error\<close> is its message. \<open>UnknownMessageType t\<close> is the message
  \<^verbatim>\<open>`Unknown message type: ${t}`\<close>, which is never empty. \<open>TypeError\<close> is the error the engine
  throws for a call of something that is not a function or a read of a property of null;
  its message is the engine's, and is not empty.
\<close>

datatype jsError = Error string | UnknownMessageType jsval | TypeError

text \<open>\<^verbatim>\<open>error.message || "Internal server error"\<close>\<close>

fun messageOrDefault :: "jsError \<Rightarrow> jsError" where
  "messageOrDefault (Error m) = (if m = [] then Error ''Internal server error'' else Error m)"
| "messageOrDefault (UnknownMessageType t) = UnknownMessageType t"
| "messageOrDefault TypeError = TypeError"

text \<open>The frames the server writes, by their \<^verbatim>\<open>type\<close>.\<close>

datatype outmsg =
    ConnectionEstablished
  | InitSuccess
  | SubscribeSuccess jsval
  | Pong
  | ErrorFrame jsError
  | LocationUpdateFrame jsval

text \<open>The two writes of the handler: the tracking row and the booking's last position.\<close>

datatype dbop =
    InsertLocationTracking jsval jstext jstext "jstext option" "jstext option" string
  | UpdateBookings jsval jstext jstext int

text \<open>
  The argument of \<^verbatim>\<open>.values(...)\<close> at lines 133 to 140: the object literal is evaluated before
  the insert is called, and each of its four \<^verbatim>\<open>toString\<close> calls can throw.
\<close>

definition trackingValues :: "jsval \<Rightarrow> jsError + dbop" where
  "trackingValues data =
     (if toStringThrows (getField data ''latitude'') \<or>
         toStringThrows (getField data ''longitude'') \<or>
         optToStringThrows (getField data ''speed'') \<or>
         optToStringThrows (getField data ''heading'')
      then Inl TypeError
      else Inr (InsertLocationTracking (getField data ''bookingId'')
                  (ToString (getField data ''latitude''))
                  (ToString (getField data ''longitude''))
                  (optToString (getField data ''speed''))
                  (optToString (getField data ''heading''))
                  ''active''))"

datatype logline =
    WebSocketError jsError
  | FailedToSendError string
  | FailedToBroadcast string
  | CleanedUpStale jsval
  | ClientDisconnected

text \<open>
  The environment of one run. \<open>sendError e s = Some m\<close>: \<^verbatim>\<open>ws.send\<close> on socket \<open>s\<close> throws
  an error with message \<open>m\<close>, at every call of the run. \<open>insertError\<close>, \<open>updateError\<close>: the
  awaited write rejects with that message.
\<close>

record env =
  readyState :: "WS \<Rightarrow> readyState"
  sendError :: "WS \<Rightarrow> string option"
  insertError :: "string option"
  updateError :: "string option"

text \<open>
  The state. \<open>clients\<close> is the registry; \<open>sendCalls\<close> lists every call of \<^verbatim>\<open>ws.send\<close> in
  order, whether it threw or not; \<open>db\<close> lists the writes the store accepted; \<open>console\<close> the
  lines logged.
\<close>

record hub =
  clients :: "(WS \<times> TrackingClient) list"
  sendCalls :: "(WS \<times> outmsg) list"
  db :: "dbop list"
  console :: "logline list"

text \<open>The frames a socket accepted: the calls of \<^verbatim>\<open>ws.send\<close> that did not throw.\<close>

definition delivered :: "env \<Rightarrow> hub \<Rightarrow> (WS \<times> outmsg) list" where
  "delivered e h = filter (\<lambda>p. sendError e (fst p) = None) (sendCalls h)"

subsection \<open>The handlers\<close>

text \<open>\<^verbatim>\<open>ws.send(frame)\<close>: the call is recorded; the first component is what it throws.\<close>

definition wsSend :: "env \<Rightarrow> hub \<Rightarrow> WS \<Rightarrow> outmsg \<Rightarrow> jsError option \<times> hub" where
  "wsSend e h s m =
     (map_option Error (sendError e s), h\<lparr>sendCalls := sendCalls h @ [(s, m)]\<rparr>)"

definition handleClose :: "hub \<Rightarrow> WS \<Rightarrow> hub" where
  "handleClose h s =
     h\<lparr>clients := AList.delete s (clients h), console := console h @ [ClientDisconnected]\<rparr>"

definition handleError :: "env \<Rightarrow> hub \<Rightarrow> WS \<Rightarrow> jsError \<Rightarrow> hub" where
  "handleError e h s err =
     (let h1 = h\<lparr>console := console h @ [WebSocketError err]\<rparr> in
      if readyState e s = OPEN then
        (let h2 = h1\<lparr>sendCalls := sendCalls h1 @ [(s, ErrorFrame (messageOrDefault err))]\<rparr> in
         case sendError e s of
           None \<Rightarrow> h2
         | Some m \<Rightarrow> h2\<lparr>console := console h2 @ [FailedToSendError m]\<rparr>)
      else h1)"

text \<open>
  The loop of \<^verbatim>\<open>broadcastLocationUpdate\<close> over the snapshot \<^verbatim>\<open>Array.from(clients.entries())\<close>:
  a session is sent the frame when its \<open>bookingId\<close> is the sample's and its socket is
  open; when that send throws the session is deleted and the loop goes on.
\<close>

definition recipient :: "env \<Rightarrow> jsval \<Rightarrow> WS \<times> TrackingClient \<Rightarrow> bool" where
  "recipient e b p = (strictEq (bookingId (snd p)) b \<and> readyState e (fst p) = OPEN)"

fun broadcastLoop ::
  "env \<Rightarrow> outmsg \<Rightarrow> jsval \<Rightarrow> (WS \<times> TrackingClient) list \<Rightarrow> hub \<Rightarrow> hub" where
  "broadcastLoop e m b [] h = h"
| "broadcastLoop e m b (p # rest) h =
     (if recipient e b p then
        (case sendError e (fst p) of
           None \<Rightarrow> broadcastLoop e m b rest (h\<lparr>sendCalls := sendCalls h @ [(fst p, m)]\<rparr>)
         | Some err \<Rightarrow>
             broadcastLoop e m b rest
               (h\<lparr>sendCalls := sendCalls h @ [(fst p, m)],
                  console := console h @ [FailedToBroadcast err],
                  clients := AList.delete (fst p) (clients h)\<rparr>))
      else broadcastLoop e m b rest h)"

definition broadcastLocationUpdate :: "env \<Rightarrow> hub \<Rightarrow> jsval \<Rightarrow> hub" where
  "broadcastLocationUpdate e h update =
     broadcastLoop e (LocationUpdateFrame update) (getField update ''bookingId'') (clients h) h"

definition STALE_TIMEOUT :: int where
  "STALE_TIMEOUT = 120000"

text \<open>
  The test of \<^verbatim>\<open>cleanupStaleConnections\<close>; \<^verbatim>\<open>client.lastPing && ...\<close> is false for an
  absent timestamp and for the timestamp 0.
\<close>

definition isStale :: "env \<Rightarrow> int \<Rightarrow> WS \<times> TrackingClient \<Rightarrow> bool" where
  "isStale e now p =
     (readyState e (fst p) = CLOSED \<or> readyState e (fst p) = CLOSING \<or>
      (case lastPing (snd p) of
         None \<Rightarrow> False
       | Some t \<Rightarrow> t \<noteq> 0 \<and> now - t > STALE_TIMEOUT))"

fun cleanupLoop :: "env \<Rightarrow> int \<Rightarrow> (WS \<times> TrackingClient) list \<Rightarrow> hub \<Rightarrow> hub" where
  "cleanupLoop e now [] h = h"
| "cleanupLoop e now (p # rest) h =
     (if isStale e now p then
        cleanupLoop e now rest
          (h\<lparr>clients := AList.delete (fst p) (clients h),
             console := console h @ [CleanedUpStale (userId (snd p))]\<rparr>)
      else cleanupLoop e now rest h)"

definition cleanupStaleConnections :: "env \<Rightarrow> hub \<Rightarrow> int \<Rightarrow> hub" where
  "cleanupStaleConnections e h now = cleanupLoop e now (clients h) h"

text \<open>
  The \<^verbatim>\<open>switch\<close> inside the \<^verbatim>\<open>try\<close> of \<^verbatim>\<open>handleMessage\<close>. \<open>client\<close> is \<^verbatim>\<open>clients.get(ws)\<close>, read
  before the switch; assigning to its fields updates the entry of the registry. In the
  \<^verbatim>\<open>location_update\<close> case the values of the insert are built after the sender's timestamp
  is refreshed and before the store is called; the texts the update of the booking needs
  are the same two calls again, which have not thrown. In the \<^verbatim>\<open>default\<close> case the template
  literal converts \<^verbatim>\<open>data.type\<close> to text, which can throw in place of the error being built.
\<close>

definition dispatch ::
  "env \<Rightarrow> hub \<Rightarrow> int \<Rightarrow> WS \<Rightarrow> TrackingClient option \<Rightarrow> jsval \<Rightarrow> jsError option \<times> hub" where
  "dispatch e h now s client data =
     (if getField data ''type'' = JStr ''init'' then
        (if \<not> truthy (getField data ''userId'') \<or> \<not> truthy (getField data ''role'') then
           (Some (Error ''userId and role are required for initialization''), h)
         else
           wsSend e
             (h\<lparr>clients :=
                  AList.update s
                    \<lparr>ws = s, bookingId = JUndefined, userId = getField data ''userId'',
                     role = getField data ''role'', lastPing = Some now\<rparr>
                    (clients h)\<rparr>)
             s InitSuccess)
      else if getField data ''type'' = JStr ''subscribe_tracking'' then
        (if \<not> truthy (getField data ''bookingId'') then
           (Some (Error ''bookingId is required for tracking subscription''), h)
         else
           (case client of
              None \<Rightarrow> (None, h)
            | Some c \<Rightarrow>
                wsSend e
                  (h\<lparr>clients :=
                       AList.update s
                         (c\<lparr>bookingId := getField data ''bookingId'', lastPing := Some now\<rparr>)
                         (clients h)\<rparr>)
                  s (SubscribeSuccess (getField data ''bookingId''))))
      else if getField data ''type'' = JStr ''location_update'' then
        (if \<not> truthy (getField data ''bookingId'') \<or> \<not> truthy (getField data ''latitude'')
            \<or> \<not> truthy (getField data ''longitude'') then
           (Some (Error ''Invalid location update data''), h)
         else
           (let h1 = (case client of
                        None \<Rightarrow> h
                      | Some c \<Rightarrow>
                          h\<lparr>clients := AList.update s (c\<lparr>lastPing := Some now\<rparr>) (clients h)\<rparr>)
            in case trackingValues data of
                 Inl err \<Rightarrow> (Some err, h1)
               | Inr row \<Rightarrow>
                   (case insertError e of
                      Some m \<Rightarrow> (Some (Error m), h1)
                    | None \<Rightarrow>
                        (let h2 = h1\<lparr>db := db h1 @ [row]\<rparr>
                         in case updateError e of
                              Some m \<Rightarrow> (Some (Error m), h2)
                            | None \<Rightarrow>
                                (None,
                                 broadcastLocationUpdate e
                                   (h2\<lparr>db := db h2 @
                                         [UpdateBookings (getField data ''bookingId'')
                                            (ToString (getField data ''latitude''))
                                            (ToString (getField data ''longitude'')) now]\<rparr>)
                                   data)))))
      else if getField data ''type'' = JStr ''ping'' then
        (case client of
           None \<Rightarrow> (None, h)
         | Some c \<Rightarrow>
             wsSend e (h\<lparr>clients := AList.update s (c\<lparr>lastPing := Some now\<rparr>) (clients h)\<rparr>)
               s Pong)
      else if toStringThrows (getField data ''type'') then (Some TypeError, h)
      else (Some (UnknownMessageType (getField data ''type'')), h))"

text \<open>
  A received frame after \<^verbatim>\<open>JSON.parse(message.toString('utf-8'))\<close>: the parse throws, or
  gives a value.
\<close>

datatype frame = Unparsable | Parsed jsval

text \<open>
  \<^verbatim>\<open>handleMessage(ws, message)\<close>. \<open>Inl\<close> is the one throw the handler does not catch: reading
  \<^verbatim>\<open>data.type\<close> of \<^verbatim>\<open>null\<close> (or of undefined, which no parse returns), before the \<^verbatim>\<open>try\<close>. Every
  other run returns the new state.
\<close>

definition handleMessage :: "env \<Rightarrow> hub \<Rightarrow> int \<Rightarrow> WS \<Rightarrow> frame \<Rightarrow> jsError + hub" where
  "handleMessage e h now s fr =
     (case fr of
        Unparsable \<Rightarrow> Inr (handleError e h s (Error ''Invalid JSON message''))
      | Parsed data \<Rightarrow>
          if data = JNull \<or> data = JUndefined then
            Inl TypeError
          else if \<not> truthy (getField data ''type'') then
            Inr (handleError e h s (Error ''Message type is required''))
          else if map_of (clients h) s = None \<and> getField data ''type'' \<noteq> JStr ''init'' then
            Inr (handleError e h s (Error ''Client not initialized''))
          else
            (case dispatch e h now s (map_of (clients h) s) data of
               (None, h') \<Rightarrow> Inr h'
             | (Some err, h') \<Rightarrow> Inr (handleError e h' s err)))"

subsection \<open>Example runs\<close>

text \<open>
  A driver on socket 1, a passenger on socket 2 following booking 5 and a passenger on
  socket 3 following booking 9; every socket open, no send and no write failing.
\<close>

definition envOk :: env where
  "envOk = \<lparr>readyState = (\<lambda>s. OPEN), sendError = (\<lambda>s. None),
            insertError = None, updateError = None\<rparr>"

definition driver :: TrackingClient where
  "driver = \<lparr>ws = 1, bookingId = JUndefined, userId = JNum 7, role = JStr ''driver'',
             lastPing = Some 1000\<rparr>"

definition passengerA :: TrackingClient where
  "passengerA = \<lparr>ws = 2, bookingId = JNum 5, userId = JNum 8, role = JStr ''passenger'',
                 lastPing = Some 1000\<rparr>"

definition passengerB :: TrackingClient where
  "passengerB = \<lparr>ws = 3, bookingId = JNum 9, userId = JNum 9, role = JStr ''passenger'',
                 lastPing = Some 1000\<rparr>"

definition hubEmpty :: hub where
  "hubEmpty = \<lparr>clients = [], sendCalls = [], db = [], console = []\<rparr>"

definition hubAB :: hub where
  "hubAB = \<lparr>clients = [(1, driver), (2, passengerA), (3, passengerB)],
            sendCalls = [], db = [], console = []\<rparr>"

definition pingMsg :: jsval where
  "pingMsg = JObj [(''type'', JStr ''ping'')]"

text \<open>A sample for booking 5 on the equator: its latitude is the number 0.\<close>

definition equatorSample :: jsval where
  "equatorSample = JObj [(''type'', JStr ''location_update''), (''bookingId'', JNum 5),
                         (''latitude'', JNum 0), (''longitude'', JNum 20)]"

definition envUpdateFails :: env where
  "envUpdateFails = \<lparr>readyState = (\<lambda>s. OPEN), sendError = (\<lambda>s. None),
                     insertError = None, updateError = Some ''booking update failed''\<rparr>"

definition envClosed2 :: env where
  "envClosed2 = \<lparr>readyState = (\<lambda>s. if s = 2 then CLOSED else OPEN), sendError = (\<lambda>s. None),
                 insertError = None, updateError = None\<rparr>"

definition envSend2Fails :: env where
  "envSend2Fails = \<lparr>readyState = (\<lambda>s. OPEN),
                    sendError = (\<lambda>s. if s = 2 then Some ''socket hang up'' else None),
                    insertError = None, updateError = None\<rparr>"

text \<open>Two passengers following booking 5, on sockets 2 and 4.\<close>

definition hubTwo5 :: hub where
  "hubTwo5 = \<lparr>clients = [(1, driver), (2, passengerA), (4, passengerA\<lparr>ws := 4\<rparr>)],
              sendCalls = [], db = [], console = []\<rparr>"

text \<open>At time 200000: socket 1 was heard 50 s ago, socket 3 was last heard 199 s ago.\<close>

definition hubStale :: hub where
  "hubStale = \<lparr>clients = [(1, driver\<lparr>lastPing := Some 150000\<rparr>),
                          (2, passengerA\<lparr>lastPing := Some 150000\<rparr>), (3, passengerB)],
               sendCalls = [], db = [], console = []\<rparr>"

definition sample5 :: jsval where
  "sample5 = JObj [(''type'', JStr ''location_update''), (''bookingId'', JNum 5),
                   (''latitude'', JNum 41), (''longitude'', JNum 20)]"

definition sample9 :: jsval where
  "sample9 = JObj [(''type'', JStr ''location_update''), (''bookingId'', JNum 9),
                   (''latitude'', JNum 41), (''longitude'', JNum 20)]"

text \<open>A sample whose latitude is an object with a \<^verbatim>\<open>toString\<close> property that is a number.\<close>

definition oddSample :: jsval where
  "oddSample = JObj [(''type'', JStr ''location_update''), (''bookingId'', JNum 5),
                     (''latitude'', JObj [(''toString'', JNum 1)]), (''longitude'', JNum 20)]"

definition initMsg :: jsval where
  "initMsg = JObj [(''type'', JStr ''init''), (''userId'', JNum 7), (''role'', JStr ''driver'')]"

definition zeroInit :: jsval where
  "zeroInit = JObj [(''type'', JStr ''init''), (''userId'', JNum 0), (''role'', JStr ''driver'')]"

definition negativeInit :: jsval where
  "negativeInit =
     JObj [(''type'', JStr ''init''), (''userId'', JNum (- 1)), (''role'', JStr ''driver'')]"

definition sub42 :: jsval where
  "sub42 = JObj [(''type'', JStr ''subscribe_tracking''), (''bookingId'', JNum 42)]"

definition sub7 :: jsval where
  "sub7 = JObj [(''type'', JStr ''subscribe_tracking''), (''bookingId'', JNum 7)]"

subsection \<open>Predicates of the statements\<close>

text \<open>A session the broadcast scan sends to and whose send throws.\<close>

definition sendFails :: "env \<Rightarrow> jsval \<Rightarrow> WS \<times> TrackingClient \<Rightarrow> bool" where
  "sendFails e b p = (recipient e b p \<and> sendError e (fst p) \<noteq> None)"

text \<open>Every session carries a liveness timestamp, and none is the number 0.\<close>

definition stamped :: "hub \<Rightarrow> bool" where
  "stamped h = (\<forall>q \<in> set (clients h). \<exists>t. lastPing (snd q) = Some t \<and> t \<noteq> 0)"


section \<open>Properties\<close>

subsection \<open>What \<open>handleError\<close> changes\<close>

lemma handleError_clients [simp]: "clients (handleError e h s err) = clients h"
  by (simp add: handleError_def Let_def split: option.splits)

lemma handleError_db [simp]: "db (handleError e h s err) = db h"
  by (simp add: handleError_def Let_def split: option.splits)

lemma handleError_sendCalls:
  "sendCalls (handleError e h s err) =
     sendCalls h @ (if readyState e s = OPEN then [(s, ErrorFrame (messageOrDefault err))] else [])"
  by (simp add: handleError_def Let_def split: option.splits)

subsection \<open>Messages before \<^verbatim>\<open>init\<close>\<close>

text \<open>
  Claim C4. On a connection with no session in the registry, a message whose \<^verbatim>\<open>type\<close> is
  present and is not \<^verbatim>\<open>'init'\<close> is answered by \<open>handleError\<close> with "Client not initialized":
  the error frame goes to that connection (when its socket is open), and the registry and
  the store are left as they were.
\<close>

theorem uninitialized_rejects_non_init:
  assumes "map_of (clients h) s = None"
    and "truthy (getField data ''type'')"
    and "getField data ''type'' \<noteq> JStr ''init''"
  shows "\<exists>h'. handleMessage e h now s (Parsed data) = Inr h' \<and>
           h' = handleError e h s (Error ''Client not initialized'') \<and>
           clients h' = clients h \<and> db h' = db h \<and>
           sendCalls h' = sendCalls h @
             (if readyState e s = OPEN
              then [(s, ErrorFrame (Error ''Client not initialized''))] else [])"
proof -
  from assms(2) have "data \<noteq> JNull" and "data \<noteq> JUndefined" by auto
  with assms have "handleMessage e h now s (Parsed data) =
      Inr (handleError e h s (Error ''Client not initialized''))"
    by (simp add: handleMessage_def)
  then show ?thesis by (simp add: handleError_sendCalls)
qed

theorem uninitialized_rejects_non_init_witness:
  "map_of (clients hubEmpty) 1 = None \<and>
   truthy (getField pingMsg ''type'') \<and>
   getField pingMsg ''type'' \<noteq> JStr ''init'' \<and>
   (\<exists>h'. handleMessage envOk hubEmpty 2000 1 (Parsed pingMsg) = Inr h' \<and>
         clients h' = [] \<and> db h' = [] \<and>
         sendCalls h' = [(1, ErrorFrame (Error ''Client not initialized''))])"
proof -
  have a: "map_of (clients hubEmpty) 1 = None" by (simp add: hubEmpty_def)
  have b: "truthy (getField pingMsg ''type'')" by (simp add: pingMsg_def)
  have c: "getField pingMsg ''type'' \<noteq> JStr ''init''" by (simp add: pingMsg_def)
  from uninitialized_rejects_non_init [OF a b c, of envOk 2000]
  show ?thesis using a b c by (auto simp: hubEmpty_def envOk_def)
qed

subsection \<open>Validation of a location sample\<close>

text \<open>
  Claim C3. A \<^verbatim>\<open>location_update\<close> whose latitude is absent or falsy (undefined, null, the
  number 0, ...) is never written and never broadcast: the run ends in \<open>handleError\<close>, the
  store and the registry are left as they were, and the only frame of the run is the error
  frame to the sender (when its socket is open). For a sender that has a session, which
  is what the protocol requires of a \<^verbatim>\<open>location_update\<close>, the error is the validation error
  "Invalid location update data"; a sender without one is stopped a step earlier, with
  "Client not initialized".
\<close>

theorem falsy_latitude_rejected:
  assumes "getField data ''type'' = JStr ''location_update''"
    and "\<not> truthy (getField data ''latitude'')"
  shows "\<exists>h' err. handleMessage e h now s (Parsed data) = Inr h' \<and>
           h' = handleError e h s err \<and>
           err = (if map_of (clients h) s = None then Error ''Client not initialized''
                  else Error ''Invalid location update data'') \<and>
           clients h' = clients h \<and> db h' = db h \<and>
           sendCalls h' = sendCalls h @
             (if readyState e s = OPEN then [(s, ErrorFrame err)] else [])"
proof -
  from assms(1) have "data \<noteq> JNull" and "data \<noteq> JUndefined" by auto
  with assms have "handleMessage e h now s (Parsed data) =
      Inr (handleError e h s
             (if map_of (clients h) s = None then Error ''Client not initialized''
              else Error ''Invalid location update data''))"
    by (simp add: handleMessage_def dispatch_def)
  then show ?thesis by (simp add: handleError_sendCalls)
qed

theorem falsy_latitude_rejected_witness:
  "map_of (clients hubAB) 1 = Some driver \<and>
   getField equatorSample ''type'' = JStr ''location_update'' \<and>
   getField equatorSample ''latitude'' = JNum 0 \<and>
   \<not> truthy (getField equatorSample ''latitude'') \<and>
   (\<exists>h'. handleMessage envOk hubAB 2000 1 (Parsed equatorSample) = Inr h' \<and>
         clients h' = clients hubAB \<and> db h' = [] \<and>
         sendCalls h' = [(1, ErrorFrame (Error ''Invalid location update data''))])"
proof -
  have a: "map_of (clients hubAB) 1 = Some driver" by (simp add: hubAB_def)
  have b: "getField equatorSample ''type'' = JStr ''location_update''"
    by (simp add: equatorSample_def)
  have c: "\<not> truthy (getField equatorSample ''latitude'')" by (simp add: equatorSample_def)
  have d: "getField equatorSample ''latitude'' = JNum 0" by (simp add: equatorSample_def)
  from falsy_latitude_rejected [OF b c, of envOk hubAB 2000 1]
  show ?thesis using a b c d by (auto simp: hubAB_def envOk_def)
qed

subsection \<open>\<^verbatim>\<open>init\<close>\<close>

lemma handleMessage_init:
  assumes "getField data ''type'' = JStr ''init''"
  shows "handleMessage e h now s (Parsed data) =
     Inr (if truthy (getField data ''userId'') \<and> truthy (getField data ''role'') then
            (let h1 = h\<lparr>clients :=
                          AList.update s
                            \<lparr>ws = s, bookingId = JUndefined, userId = getField data ''userId'',
                             role = getField data ''role'', lastPing = Some now\<rparr>
                            (clients h),
                        sendCalls := sendCalls h @ [(s, InitSuccess)]\<rparr>
             in case sendError e s of None \<Rightarrow> h1 | Some m \<Rightarrow> handleError e h1 s (Error m))
          else handleError e h s (Error ''userId and role are required for initialization''))"
proof -
  from assms have "data \<noteq> JNull" and "data \<noteq> JUndefined" by auto
  with assms show ?thesis
    by (auto simp: handleMessage_def dispatch_def wsSend_def Let_def split: option.splits)
qed

text \<open>
  Claim C5, as the code has it. The test is \<^verbatim>\<open>!initData.userId || !initData.role\<close>: an
  \<^verbatim>\<open>init\<close> succeeds exactly when \<open>userId\<close> and \<open>role\<close> are both truthy (a number other than 0,
  a string other than the empty one). Then the session of the socket is created or
  overwritten with these two values, no \<open>bookingId\<close> and the timestamp \<open>now\<close>, and
  \<^verbatim>\<open>init_success\<close> is sent (followed by an error frame when that send throws). Otherwise the
  validation error is reported and the registry is left as it was. \<^verbatim>\<open>init_success\<close> is
  among the frames of the run exactly in the first case.
\<close>

theorem init_succeeds_iff_truthy:
  assumes "getField data ''type'' = JStr ''init''"
  shows "\<exists>h'. handleMessage e h now s (Parsed data) = Inr h' \<and>
     (((s, InitSuccess) \<in> set (drop (length (sendCalls h)) (sendCalls h'))) =
        (truthy (getField data ''userId'') \<and> truthy (getField data ''role''))) \<and>
     (if truthy (getField data ''userId'') \<and> truthy (getField data ''role'') then
        clients h' =
          AList.update s
            \<lparr>ws = s, bookingId = JUndefined, userId = getField data ''userId'',
             role = getField data ''role'', lastPing = Some now\<rparr>
            (clients h) \<and>
        sendCalls h' = sendCalls h @ (s, InitSuccess) #
          (case sendError e s of
             None \<Rightarrow> []
           | Some m \<Rightarrow> if readyState e s = OPEN
                       then [(s, ErrorFrame (messageOrDefault (Error m)))] else [])
      else
        clients h' = clients h \<and>
        sendCalls h' = sendCalls h @
          (if readyState e s = OPEN
           then [(s, ErrorFrame (Error ''userId and role are required for initialization''))]
           else []))"
  by (simp add: handleMessage_init [OF assms] Let_def handleError_sendCalls split: option.splits)

theorem init_succeeds_iff_truthy_witness:
  "getField initMsg ''type'' = JStr ''init'' \<and>
   (\<exists>h'. handleMessage envOk hubEmpty 2000 1 (Parsed initMsg) = Inr h' \<and>
         clients h' = [(1, \<lparr>ws = 1, bookingId = JUndefined, userId = JNum 7,
                            role = JStr ''driver'', lastPing = Some 2000\<rparr>)] \<and>
         sendCalls h' = [(1, InitSuccess)]) \<and>
   getField zeroInit ''type'' = JStr ''init'' \<and>
   (\<exists>h'. handleMessage envOk hubEmpty 2000 1 (Parsed zeroInit) = Inr h' \<and>
         clients h' = [] \<and>
         sendCalls h' =
           [(1, ErrorFrame (Error ''userId and role are required for initialization''))])"
proof -
  have a: "getField initMsg ''type'' = JStr ''init''" by (simp add: initMsg_def)
  have b: "getField zeroInit ''type'' = JStr ''init''" by (simp add: zeroInit_def)
  have "\<exists>h'. handleMessage envOk hubEmpty 2000 1 (Parsed initMsg) = Inr h' \<and>
         clients h' = [(1, \<lparr>ws = 1, bookingId = JUndefined, userId = JNum 7,
                            role = JStr ''driver'', lastPing = Some 2000\<rparr>)] \<and>
         sendCalls h' = [(1, InitSuccess)]"
    using init_succeeds_iff_truthy [OF a, of envOk hubEmpty 2000 1]
    by (auto simp: initMsg_def envOk_def hubEmpty_def)
  moreover have "\<exists>h'. handleMessage envOk hubEmpty 2000 1 (Parsed zeroInit) = Inr h' \<and>
         clients h' = [] \<and>
         sendCalls h' =
           [(1, ErrorFrame (Error ''userId and role are required for initialization''))]"
    using init_succeeds_iff_truthy [OF b, of envOk hubEmpty 2000 1]
    by (auto simp: zeroInit_def envOk_def hubEmpty_def)
  ultimately show ?thesis using a b by blast
qed

text \<open>
  The test is truthiness, not positivity: \<open>userId = -1\<close> is not a positive integer, and
  the \<^verbatim>\<open>init\<close> that carries it creates the session and is acknowledged.
\<close>

theorem init_negative_userId_counterexample:
  "getField negativeInit ''userId'' = JNum (- 1) \<and> \<not> (0 < (- 1 :: rat)) \<and>
   handleMessage envOk hubEmpty 2000 1 (Parsed negativeInit) =
     Inr \<lparr>clients = [(1, \<lparr>ws = 1, bookingId = JUndefined, userId = JNum (- 1),
                           role = JStr ''driver'', lastPing = Some 2000\<rparr>)],
          sendCalls = [(1, InitSuccess)], db = [], console = []\<rparr>"
  by (simp add: negativeInit_def envOk_def hubEmpty_def handleMessage_def dispatch_def wsSend_def)

text \<open>
  Claim C10. A valid \<^verbatim>\<open>init\<close> on a connection whose session has a \<open>bookingId\<close> replaces the
  whole record: the new one has no \<open>bookingId\<close>.
\<close>

theorem reinit_discards_subscription:
  assumes "map_of (clients h) s = Some c"
    and "bookingId c \<noteq> JUndefined"
    and "getField data ''type'' = JStr ''init''"
    and "truthy (getField data ''userId'')"
    and "truthy (getField data ''role'')"
  shows "\<exists>h'. handleMessage e h now s (Parsed data) = Inr h' \<and>
           map_of (clients h') s =
             Some \<lparr>ws = s, bookingId = JUndefined, userId = getField data ''userId'',
                   role = getField data ''role'', lastPing = Some now\<rparr>"
  using assms(4,5)
  by (simp add: handleMessage_init [OF assms(3)] Let_def AList.update_conv' split: option.splits)

theorem reinit_discards_subscription_witness:
  "map_of (clients hubAB) 2 = Some passengerA \<and> bookingId passengerA = JNum 5 \<and>
   bookingId passengerA \<noteq> JUndefined \<and>
   getField initMsg ''type'' = JStr ''init'' \<and>
   truthy (getField initMsg ''userId'') \<and> truthy (getField initMsg ''role'') \<and>
   (\<exists>h'. handleMessage envOk hubAB 2000 2 (Parsed initMsg) = Inr h' \<and>
         map_of (clients h') 2 =
           Some \<lparr>ws = 2, bookingId = JUndefined, userId = JNum 7, role = JStr ''driver'',
                 lastPing = Some 2000\<rparr>)"
proof -
  have a: "map_of (clients hubAB) 2 = Some passengerA" by (simp add: hubAB_def)
  have b: "bookingId passengerA \<noteq> JUndefined" and b': "bookingId passengerA = JNum 5"
    by (simp_all add: passengerA_def)
  have c: "getField initMsg ''type'' = JStr ''init''" by (simp add: initMsg_def)
  have d: "truthy (getField initMsg ''userId'')" and f: "truthy (getField initMsg ''role'')"
    by (simp_all add: initMsg_def)
  have g: "getField initMsg ''userId'' = JNum 7" "getField initMsg ''role'' = JStr ''driver''"
    by (simp_all add: initMsg_def)
  from reinit_discards_subscription [OF a b c d f, of envOk 2000]
  show ?thesis using a b b' c d f by (simp add: g)
qed

subsection \<open>\<^verbatim>\<open>subscribe_tracking\<close>\<close>

lemma handleMessage_subscribe:
  assumes "getField data ''type'' = JStr ''subscribe_tracking''"
    and "map_of (clients h) s = Some c"
  shows "handleMessage e h now s (Parsed data) =
     Inr (if truthy (getField data ''bookingId'') then
            (let h1 = h\<lparr>clients :=
                          AList.update s
                            (c\<lparr>bookingId := getField data ''bookingId'', lastPing := Some now\<rparr>)
                            (clients h),
                        sendCalls :=
                          sendCalls h @ [(s, SubscribeSuccess (getField data ''bookingId''))]\<rparr>
             in case sendError e s of None \<Rightarrow> h1 | Some m \<Rightarrow> handleError e h1 s (Error m))
          else handleError e h s (Error ''bookingId is required for tracking subscription''))"
proof -
  from assms have "data \<noteq> JNull" and "data \<noteq> JUndefined" by auto
  with assms show ?thesis
    by (auto simp: handleMessage_def dispatch_def wsSend_def Let_def split: option.splits)
qed

lemma handleMessage_subscribe_clients:
  assumes "getField data ''type'' = JStr ''subscribe_tracking''"
    and "map_of (clients h) s = Some c"
  shows "\<exists>h'. handleMessage e h now s (Parsed data) = Inr h' \<and>
     clients h' =
       (if truthy (getField data ''bookingId'')
        then AList.update s (c\<lparr>bookingId := getField data ''bookingId'', lastPing := Some now\<rparr>)
               (clients h)
        else clients h)"
  by (simp add: handleMessage_subscribe [OF assms] Let_def split: option.splits)

text \<open>
  Claim C9. On an initialized session, a \<^verbatim>\<open>subscribe_tracking\<close> followed by a second one with
  a valid \<open>bookingId\<close> leaves the registry that the second one alone leaves: the session
  holds the second \<open>bookingId\<close> only (and the second timestamp). The two runs may see
  different environments \<open>e1\<close>, \<open>e2\<close> and times \<open>t1\<close>, \<open>t2\<close>.
\<close>

theorem subscribe_last_write_wins:
  assumes "map_of (clients h) s = Some c"
    and "getField data1 ''type'' = JStr ''subscribe_tracking''"
    and "getField data2 ''type'' = JStr ''subscribe_tracking''"
    and "truthy (getField data2 ''bookingId'')"
  shows "\<exists>h1 h2 h2'.
           handleMessage e1 h t1 s (Parsed data1) = Inr h1 \<and>
           handleMessage e2 h1 t2 s (Parsed data2) = Inr h2 \<and>
           handleMessage e2 h t2 s (Parsed data2) = Inr h2' \<and>
           clients h2 = clients h2' \<and>
           map_of (clients h2) s =
             Some (c\<lparr>bookingId := getField data2 ''bookingId'', lastPing := Some t2\<rparr>)"
proof -
  let ?b1 = "getField data1 ''bookingId''" and ?b2 = "getField data2 ''bookingId''"
  obtain h1 where h1: "handleMessage e1 h t1 s (Parsed data1) = Inr h1"
    and c1: "clients h1 =
       (if truthy ?b1 then AList.update s (c\<lparr>bookingId := ?b1, lastPing := Some t1\<rparr>) (clients h)
        else clients h)"
    using handleMessage_subscribe_clients [OF assms(2) assms(1)] by blast
  define c1 where "c1 = (if truthy ?b1 then c\<lparr>bookingId := ?b1, lastPing := Some t1\<rparr> else c)"
  have m1: "map_of (clients h1) s = Some c1"
    using assms(1) by (simp add: c1 c1_def AList.update_conv')
  obtain h2 where h2: "handleMessage e2 h1 t2 s (Parsed data2) = Inr h2"
    and c2: "clients h2 = AList.update s (c1\<lparr>bookingId := ?b2, lastPing := Some t2\<rparr>) (clients h1)"
    using handleMessage_subscribe_clients [OF assms(3) m1] assms(4) by auto
  obtain h2' where h2': "handleMessage e2 h t2 s (Parsed data2) = Inr h2'"
    and c2': "clients h2' = AList.update s (c\<lparr>bookingId := ?b2, lastPing := Some t2\<rparr>) (clients h)"
    using handleMessage_subscribe_clients [OF assms(3) assms(1)] assms(4) by auto
  have same: "c1\<lparr>bookingId := ?b2, lastPing := Some t2\<rparr> = c\<lparr>bookingId := ?b2, lastPing := Some t2\<rparr>"
    by (simp add: c1_def)
  have eq: "clients h2 = clients h2'"
    by (simp add: c2 c2' same c1)
  have "map_of (clients h2) s = Some (c\<lparr>bookingId := ?b2, lastPing := Some t2\<rparr>)"
    by (simp add: eq c2' AList.update_conv')
  with h1 h2 h2' eq show ?thesis by blast
qed

theorem subscribe_last_write_wins_witness:
  "map_of (clients hubAB) 1 = Some driver \<and>
   getField sub42 ''type'' = JStr ''subscribe_tracking'' \<and>
   getField sub7 ''type'' = JStr ''subscribe_tracking'' \<and>
   getField sub42 ''bookingId'' = JNum 42 \<and>
   truthy (getField sub7 ''bookingId'') \<and>
   (\<exists>h1 h2. handleMessage envOk hubAB 2000 1 (Parsed sub42) = Inr h1 \<and>
            handleMessage envOk h1 3000 1 (Parsed sub7) = Inr h2 \<and>
            map_of (clients h2) 1 =
              Some \<lparr>ws = 1, bookingId = JNum 7, userId = JNum 7, role = JStr ''driver'',
                    lastPing = Some 3000\<rparr>)"
proof -
  have a: "map_of (clients hubAB) 1 = Some driver" by (simp add: hubAB_def)
  have b: "getField sub42 ''type'' = JStr ''subscribe_tracking''"
    and b': "getField sub42 ''bookingId'' = JNum 42" by (simp_all add: sub42_def)
  have c: "getField sub7 ''type'' = JStr ''subscribe_tracking''" by (simp add: sub7_def)
  have d: "truthy (getField sub7 ''bookingId'')" and d': "getField sub7 ''bookingId'' = JNum 7"
    by (simp_all add: sub7_def)
  from subscribe_last_write_wins [OF a b c d, of envOk 2000 envOk 3000]
  obtain h1 h2 where "handleMessage envOk hubAB 2000 1 (Parsed sub42) = Inr h1"
    and "handleMessage envOk h1 3000 1 (Parsed sub7) = Inr h2"
    and "map_of (clients h2) 1 = Some (driver\<lparr>bookingId := JNum 7, lastPing := Some 3000\<rparr>)"
    by (auto simp: d')
  then show ?thesis using a b b' c d by (auto simp: driver_def)
qed

subsection \<open>\<^verbatim>\<open>location_update\<close> when the second write fails\<close>

text \<open>
  Claim C1, as the code has it. The two writes and the broadcast are three statements of
  one \<^verbatim>\<open>try\<close> block. When the insert succeeds (its values are built, \<open>row\<close>, and the store
  accepts them) and the update of the booking rejects, the \<^verbatim>\<open>catch\<close> is entered before
  \<^verbatim>\<open>broadcastLocationUpdate\<close> is reached: the tracking row stays written, the sender's
  timestamp is refreshed, the only frame sent is the error frame to the sender (when its
  socket is open), and no session is sent the sample.
\<close>

theorem update_failure_blocks_broadcast:
  assumes "map_of (clients h) s = Some c"
    and "getField data ''type'' = JStr ''location_update''"
    and "truthy (getField data ''bookingId'')"
    and "truthy (getField data ''latitude'')"
    and "truthy (getField data ''longitude'')"
    and "trackingValues data = Inr row"
    and "insertError e = None"
    and "updateError e = Some m"
  shows "\<exists>h'. handleMessage e h now s (Parsed data) = Inr h' \<and>
           db h' = db h @ [row] \<and>
           sendCalls h' = sendCalls h @
             (if readyState e s = OPEN then [(s, ErrorFrame (messageOrDefault (Error m)))] else []) \<and>
           clients h' = AList.update s (c\<lparr>lastPing := Some now\<rparr>) (clients h)"
proof -
  from assms(2) have "data \<noteq> JNull" and "data \<noteq> JUndefined" by auto
  with assms have "handleMessage e h now s (Parsed data) =
      Inr (handleError e
             (h\<lparr>clients := AList.update s (c\<lparr>lastPing := Some now\<rparr>) (clients h),
                db := db h @ [row]\<rparr>)
             s (Error m))"
    by (simp add: handleMessage_def dispatch_def Let_def)
  then show ?thesis by (simp add: handleError_sendCalls)
qed

theorem update_failure_blocks_broadcast_witness:
  "map_of (clients hubAB) 1 = Some driver \<and>
   getField sample5 ''type'' = JStr ''location_update'' \<and>
   truthy (getField sample5 ''bookingId'') \<and> truthy (getField sample5 ''latitude'') \<and>
   truthy (getField sample5 ''longitude'') \<and>
   trackingValues sample5 =
     Inr (InsertLocationTracking (JNum 5) (ToString (JNum 41)) (ToString (JNum 20))
            None None ''active'') \<and>
   insertError envUpdateFails = None \<and>
   updateError envUpdateFails = Some ''booking update failed'' \<and>
   (\<exists>h'. handleMessage envUpdateFails hubAB 2000 1 (Parsed sample5) = Inr h' \<and>
         db h' = [InsertLocationTracking (JNum 5) (ToString (JNum 41)) (ToString (JNum 20))
                    None None ''active''] \<and>
         sendCalls h' = [(1, ErrorFrame (Error ''booking update failed''))] \<and>
         map_of (clients h') 1 = Some (driver\<lparr>lastPing := Some 2000\<rparr>))"
proof -
  have a: "map_of (clients hubAB) 1 = Some driver" by (simp add: hubAB_def)
  have b: "getField sample5 ''type'' = JStr ''location_update''" by (simp add: sample5_def)
  have c: "truthy (getField sample5 ''bookingId'')" "truthy (getField sample5 ''latitude'')"
    "truthy (getField sample5 ''longitude'')" by (simp_all add: sample5_def)
  have r: "trackingValues sample5 =
     Inr (InsertLocationTracking (JNum 5) (ToString (JNum 41)) (ToString (JNum 20))
            None None ''active'')"
    by (simp add: trackingValues_def optToStringThrows_def sample5_def)
  have d: "insertError envUpdateFails = None"
    and f: "updateError envUpdateFails = Some ''booking update failed''"
    by (simp_all add: envUpdateFails_def)
  from update_failure_blocks_broadcast [OF a b c r d f, of 2000]
  show ?thesis using a b c r d f
    by (auto simp: hubAB_def envUpdateFails_def AList.update_conv')
qed

text \<open>
  A run where the broadcast is missing: passenger A on socket 2 follows booking 5 and is
  open, the insert is accepted and the update rejects; the run sends one frame, the error
  to the driver, and nothing to socket 2.
\<close>

theorem update_failure_counterexample:
  "insertError envUpdateFails = None \<and>
   updateError envUpdateFails = Some ''booking update failed'' \<and>
   recipient envUpdateFails (getField sample5 ''bookingId'') (2, passengerA) \<and>
   handleMessage envUpdateFails hubAB 2000 1 (Parsed sample5) =
     Inr \<lparr>clients = [(1, driver\<lparr>lastPing := Some 2000\<rparr>), (2, passengerA), (3, passengerB)],
          sendCalls = [(1, ErrorFrame (Error ''booking update failed''))],
          db = [InsertLocationTracking (JNum 5) (ToString (JNum 41)) (ToString (JNum 20))
                  None None ''active''],
          console = [WebSocketError (Error ''booking update failed'')]\<rparr>"
  by (simp add: envUpdateFails_def sample5_def hubAB_def recipient_def passengerA_def
      handleMessage_def dispatch_def handleError_def trackingValues_def optToStringThrows_def
      Let_def)

text \<open>
  When building the values of the insert throws, nothing is written and nothing is
  broadcast: the run reports the \<^verbatim>\<open>TypeError\<close> to the sender.
\<close>

lemma tracking_values_throw:
  assumes "map_of (clients h) s = Some c"
    and "getField data ''type'' = JStr ''location_update''"
    and "truthy (getField data ''bookingId'')"
    and "truthy (getField data ''latitude'')"
    and "truthy (getField data ''longitude'')"
    and "trackingValues data = Inl err"
  shows "handleMessage e h now s (Parsed data) =
      Inr (handleError e
             (h\<lparr>clients := AList.update s (c\<lparr>lastPing := Some now\<rparr>) (clients h)\<rparr>) s err)"
proof -
  from assms(2) have "data \<noteq> JNull" and "data \<noteq> JUndefined" by auto
  with assms show ?thesis
    by (simp add: handleMessage_def dispatch_def Let_def)
qed

lemma tracking_values_throw_example:
  "trackingValues oddSample = Inl TypeError \<and>
   handleMessage envOk hubAB 2000 1 (Parsed oddSample) =
     Inr \<lparr>clients = [(1, driver\<lparr>lastPing := Some 2000\<rparr>), (2, passengerA), (3, passengerB)],
          sendCalls = [(1, ErrorFrame TypeError)], db = [],
          console = [WebSocketError TypeError]\<rparr>"
  by (simp add: oddSample_def trackingValues_def envOk_def hubAB_def handleMessage_def
      dispatch_def handleError_def Let_def)

subsection \<open>The broadcast scan\<close>

lemma distinct_fst_filter:
  assumes "distinct (map fst xs)" and "q \<in> set xs"
  shows "(fst q \<in> fst ` set (filter P xs)) = P q"
proof
  assume "fst q \<in> fst ` set (filter P xs)"
  then obtain q' where q': "q' \<in> set xs" "P q'" "fst q' = fst q" by auto
  have "(fst q, snd q') \<in> set xs" and "(fst q, snd q) \<in> set xs"
    using q' assms(2) by (metis prod.collapse)+
  then have "snd q' = snd q"
    using assms(1) by (rule eq_key_imp_eq_value [rotated])
  with q' have "q' = q" by (simp add: prod_eq_iff)
  with q' show "P q" by simp
next
  assume "P q"
  with assms(2) show "fst q \<in> fst ` set (filter P xs)" by force
qed

lemma broadcastLoop_sendCalls:
  "sendCalls (broadcastLoop e m b xs h) =
     sendCalls h @ map (\<lambda>p. (fst p, m)) (filter (recipient e b) xs)"
  by (induction xs arbitrary: h) (auto split: option.splits)

lemma broadcastLoop_db: "db (broadcastLoop e m b xs h) = db h"
  by (induction xs arbitrary: h) (auto split: option.splits)

lemma broadcastLoop_clients:
  "clients (broadcastLoop e m b xs h) =
     filter (\<lambda>q. fst q \<notin> fst ` set (filter (sendFails e b) xs)) (clients h)"
proof (induction xs arbitrary: h)
  case Nil
  then show ?case by simp
next
  case (Cons p rest)
  show ?case
    by (auto simp: Cons.IH sendFails_def AList.delete_eq split: option.splits intro!: filter_cong)
qed

lemma broadcast_sendCalls:
  "sendCalls (broadcastLocationUpdate e h update) =
     sendCalls h @
       map (\<lambda>p. (fst p, LocationUpdateFrame update))
         (filter (recipient e (getField update ''bookingId'')) (clients h))"
  by (simp add: broadcastLocationUpdate_def broadcastLoop_sendCalls)

lemma broadcast_clients:
  "clients (broadcastLocationUpdate e h update) =
     filter (\<lambda>q. fst q \<notin> fst ` set (filter (sendFails e (getField update ''bookingId'')) (clients h)))
       (clients h)"
  by (simp add: broadcastLocationUpdate_def broadcastLoop_clients)

lemma broadcast_db [simp]: "db (broadcastLocationUpdate e h update) = db h"
  by (simp add: broadcastLocationUpdate_def broadcastLoop_db)

text \<open>
  Claim C6. For every registry, environment and sample, the calls of \<^verbatim>\<open>send\<close> the broadcast
  makes are, in registry order, one call with the update frame per session whose
  \<open>bookingId\<close> is \<^verbatim>\<open>===\<close> the sample's and whose socket is open, and no other. In particular,
  in a registry (one session per socket) with a session on socket \<open>a\<close> following booking 5
  and a session on socket \<open>b\<close> following booking 9, both sockets open, the broadcast of a
  sample for booking 5 calls \<^verbatim>\<open>send\<close> with the update frame on \<open>a\<close> and makes no call on \<open>b\<close>.
\<close>

theorem broadcast_only_to_subscribers:
  "sendCalls (broadcastLocationUpdate e h update) =
     sendCalls h @
       map (\<lambda>p. (fst p, LocationUpdateFrame update))
         (filter (\<lambda>p. strictEq (bookingId (snd p)) (getField update ''bookingId'') \<and>
                       readyState e (fst p) = OPEN) (clients h)) \<and>
   (distinct (map fst (clients h)) \<and>
    map_of (clients h) a = Some ca \<and> bookingId ca = JNum 5 \<and> readyState e a = OPEN \<and>
    map_of (clients h) b = Some cb \<and> bookingId cb = JNum 9 \<and> readyState e b = OPEN \<and>
    getField update ''bookingId'' = JNum 5 \<longrightarrow>
      (a, LocationUpdateFrame update) \<in>
         set (drop (length (sendCalls h)) (sendCalls (broadcastLocationUpdate e h update))) \<and>
      b \<notin> fst ` set (drop (length (sendCalls h))
                          (sendCalls (broadcastLocationUpdate e h update))))"
proof -
  have general: "sendCalls (broadcastLocationUpdate e h update) =
     sendCalls h @
       map (\<lambda>p. (fst p, LocationUpdateFrame update))
         (filter (\<lambda>p. strictEq (bookingId (snd p)) (getField update ''bookingId'') \<and>
                       readyState e (fst p) = OPEN) (clients h))"
    by (simp add: broadcast_sendCalls recipient_def [abs_def])
  have special: "(a, LocationUpdateFrame update) \<in>
         set (drop (length (sendCalls h)) (sendCalls (broadcastLocationUpdate e h update))) \<and>
      b \<notin> fst ` set (drop (length (sendCalls h))
                          (sendCalls (broadcastLocationUpdate e h update)))"
    if d: "distinct (map fst (clients h))"
      and ma: "map_of (clients h) a = Some ca" and ba: "bookingId ca = JNum 5"
      and oa: "readyState e a = OPEN"
      and mb: "map_of (clients h) b = Some cb" and bb: "bookingId cb = JNum 9"
      and u: "getField update ''bookingId'' = JNum 5"
  proof -
    have ina: "(a, ca) \<in> set (clients h)" and inb: "(b, cb) \<in> set (clients h)"
      using d ma mb by simp_all
    have nb: "\<And>c. (b, c) \<in> set (clients h) \<Longrightarrow> c = cb"
      using d inb by (meson eq_key_imp_eq_value)
    have ra: "recipient e (JNum 5) (a, ca)"
      using ba oa by (simp add: recipient_def)
    have "(a, LocationUpdateFrame update) \<in>
        (\<lambda>p. (fst p, LocationUpdateFrame update)) ` {p \<in> set (clients h). recipient e (JNum 5) p}"
      using ina ra by force
    moreover have "b \<notin> fst ` (\<lambda>p. (fst p, LocationUpdateFrame update)) `
        {p \<in> set (clients h). recipient e (JNum 5) p}"
      using nb bb by (auto simp: recipient_def)
    ultimately show ?thesis
      using u by (simp add: broadcast_sendCalls)
  qed
  from general special show ?thesis by blast
qed

theorem broadcast_only_to_subscribers_witness:
  "distinct (map fst (clients hubAB)) \<and>
   map_of (clients hubAB) 2 = Some passengerA \<and> bookingId passengerA = JNum 5 \<and>
   readyState envOk 2 = OPEN \<and>
   map_of (clients hubAB) 3 = Some passengerB \<and> bookingId passengerB = JNum 9 \<and>
   readyState envOk 3 = OPEN \<and>
   getField sample5 ''bookingId'' = JNum 5 \<and>
   sendCalls (broadcastLocationUpdate envOk hubAB sample5) = [(2, LocationUpdateFrame sample5)] \<and>
   3 \<notin> fst ` set (sendCalls (broadcastLocationUpdate envOk hubAB sample5)) \<and>
   getField sample9 ''bookingId'' = JNum 9 \<and>
   sendCalls (broadcastLocationUpdate envOk hubAB sample9) = [(3, LocationUpdateFrame sample9)]"
proof -
  have a: "distinct (map fst (clients hubAB))" by (simp add: hubAB_def)
  have b: "map_of (clients hubAB) 2 = Some passengerA" "bookingId passengerA = JNum 5"
    "readyState envOk 2 = OPEN" by (simp_all add: hubAB_def passengerA_def envOk_def)
  have c: "map_of (clients hubAB) 3 = Some passengerB" "bookingId passengerB = JNum 9"
    "readyState envOk 3 = OPEN" by (simp_all add: hubAB_def passengerB_def envOk_def)
  have d: "getField sample5 ''bookingId'' = JNum 5" by (simp add: sample5_def)
  have d9: "getField sample9 ''bookingId'' = JNum 9" by (simp add: sample9_def)
  have n: "sendCalls hubAB = []" by (simp add: hubAB_def)
  note inst5 = broadcast_only_to_subscribers [of envOk hubAB sample5 2 passengerA 3 passengerB]
  note inst9 = broadcast_only_to_subscribers [of envOk hubAB sample9 2 passengerA 3 passengerB]
  from inst5 have "sendCalls (broadcastLocationUpdate envOk hubAB sample5) =
      sendCalls hubAB @ map (\<lambda>p. (fst p, LocationUpdateFrame sample5))
        (filter (\<lambda>p. strictEq (bookingId (snd p)) (getField sample5 ''bookingId'') \<and>
                      readyState envOk (fst p) = OPEN) (clients hubAB))"
    by blast
  then have s5: "sendCalls (broadcastLocationUpdate envOk hubAB sample5) =
      [(2, LocationUpdateFrame sample5)]"
    by (simp add: d hubAB_def driver_def passengerA_def passengerB_def envOk_def)
  from inst5 a b c d
  have "3 \<notin> fst ` set (drop (length (sendCalls hubAB))
                             (sendCalls (broadcastLocationUpdate envOk hubAB sample5)))"
    by blast
  then have not3: "3 \<notin> fst ` set (sendCalls (broadcastLocationUpdate envOk hubAB sample5))"
    by (simp add: n)
  from inst9 have "sendCalls (broadcastLocationUpdate envOk hubAB sample9) =
      sendCalls hubAB @ map (\<lambda>p. (fst p, LocationUpdateFrame sample9))
        (filter (\<lambda>p. strictEq (bookingId (snd p)) (getField sample9 ''bookingId'') \<and>
                      readyState envOk (fst p) = OPEN) (clients hubAB))"
    by blast
  then have s9: "sendCalls (broadcastLocationUpdate envOk hubAB sample9) =
      [(3, LocationUpdateFrame sample9)]"
    by (simp add: d9 hubAB_def driver_def passengerA_def passengerB_def envOk_def)
  from a b c d d9 s5 not3 s9 show ?thesis by simp
qed

text \<open>
  Claim C7. When the send to a subscribed, open recipient throws, that socket has no
  session in the registry after the broadcast, and every other session that follows the
  booking on an open socket whose send does not throw is delivered the update frame and
  stays in the registry.
\<close>

theorem broadcast_send_failure_isolated:
  assumes "(s, c) \<in> set (clients h)"
    and "strictEq (bookingId c) (getField update ''bookingId'')"
    and "readyState e s = OPEN"
    and "sendError e s = Some m"
  shows "s \<notin> fst ` set (clients (broadcastLocationUpdate e h update)) \<and>
         (\<forall>q \<in> set (clients h).
            strictEq (bookingId (snd q)) (getField update ''bookingId'') \<and>
            readyState e (fst q) = OPEN \<and> sendError e (fst q) = None \<longrightarrow>
              (fst q, LocationUpdateFrame update) \<in>
                 set (delivered e (broadcastLocationUpdate e h update)) \<and>
              q \<in> set (clients (broadcastLocationUpdate e h update)))"
proof -
  let ?b = "getField update ''bookingId''"
  define failed where "failed = fst ` set (filter (sendFails e ?b) (clients h))"
  have "sendFails e ?b (s, c)"
    using assms by (simp add: sendFails_def recipient_def)
  with assms(1) have "s \<in> failed"
    unfolding failed_def by force
  moreover have "fst q \<notin> failed" if "q \<in> set (clients (broadcastLocationUpdate e h update))" for q
    using that by (simp add: broadcast_clients failed_def)
  ultimately have gone: "s \<notin> fst ` set (clients (broadcastLocationUpdate e h update))"
    by blast
  have rest: "(fst q, LocationUpdateFrame update) \<in>
          set (delivered e (broadcastLocationUpdate e h update)) \<and>
        q \<in> set (clients (broadcastLocationUpdate e h update))"
    if q: "q \<in> set (clients h)" and r: "recipient e ?b q" and ok: "sendError e (fst q) = None" for q
  proof -
    have "fst q \<notin> fst ` set (filter (sendFails e ?b) (clients h))"
      using ok by (auto simp: sendFails_def)
    with q have "q \<in> set (clients (broadcastLocationUpdate e h update))"
      by (simp add: broadcast_clients)
    moreover have "(fst q, LocationUpdateFrame update) \<in>
          set (delivered e (broadcastLocationUpdate e h update))"
      using q r ok by (force simp: delivered_def broadcast_sendCalls)
    ultimately show ?thesis by simp
  qed
  from gone rest show ?thesis by (simp add: recipient_def)
qed

theorem broadcast_send_failure_isolated_witness:
  "(2, passengerA) \<in> set (clients hubTwo5) \<and>
   strictEq (bookingId passengerA) (getField sample5 ''bookingId'') \<and>
   readyState envSend2Fails 2 = OPEN \<and>
   sendError envSend2Fails 2 = Some ''socket hang up'' \<and>
   2 \<notin> fst ` set (clients (broadcastLocationUpdate envSend2Fails hubTwo5 sample5)) \<and>
   (4, passengerA\<lparr>ws := 4\<rparr>) \<in> set (clients hubTwo5) \<and>
   sendError envSend2Fails 4 = None \<and>
   (4, LocationUpdateFrame sample5) \<in>
      set (delivered envSend2Fails (broadcastLocationUpdate envSend2Fails hubTwo5 sample5)) \<and>
   (4, passengerA\<lparr>ws := 4\<rparr>) \<in>
      set (clients (broadcastLocationUpdate envSend2Fails hubTwo5 sample5))"
proof -
  have a: "(2, passengerA) \<in> set (clients hubTwo5)" by (simp add: hubTwo5_def)
  have b: "strictEq (bookingId passengerA) (getField sample5 ''bookingId'')"
    by (simp add: passengerA_def sample5_def)
  have c: "readyState envSend2Fails 2 = OPEN" "sendError envSend2Fails 2 = Some ''socket hang up''"
    by (simp_all add: envSend2Fails_def)
  have d: "(4, passengerA\<lparr>ws := 4\<rparr>) \<in> set (clients hubTwo5)" by (simp add: hubTwo5_def)
  have f: "strictEq (bookingId (snd (4 :: WS, passengerA\<lparr>ws := 4\<rparr>))) (getField sample5 ''bookingId'') \<and>
      readyState envSend2Fails (fst (4 :: WS, passengerA\<lparr>ws := 4\<rparr>)) = OPEN \<and>
      sendError envSend2Fails (fst (4 :: WS, passengerA\<lparr>ws := 4\<rparr>)) = None"
    by (simp add: passengerA_def sample5_def envSend2Fails_def)
  note inst = broadcast_send_failure_isolated [OF a b c]
  from inst have gone: "2 \<notin> fst ` set (clients (broadcastLocationUpdate envSend2Fails hubTwo5 sample5))"
    by blast
  from inst d f have "(4, LocationUpdateFrame sample5) \<in>
      set (delivered envSend2Fails (broadcastLocationUpdate envSend2Fails hubTwo5 sample5)) \<and>
    (4, passengerA\<lparr>ws := 4\<rparr>) \<in>
      set (clients (broadcastLocationUpdate envSend2Fails hubTwo5 sample5))"
    by fastforce
  with a b c d f gone show ?thesis by simp
qed




subsection \<open>The stale sweep\<close>

lemma cleanupLoop_clients:
  "clients (cleanupLoop e now xs h) =
     filter (\<lambda>q. fst q \<notin> fst ` set (filter (isStale e now) xs)) (clients h)"
proof (induction xs arbitrary: h)
  case Nil
  then show ?case by simp
next
  case (Cons p rest)
  show ?case
    by (auto simp: Cons.IH AList.delete_eq intro!: filter_cong)
qed

text \<open>
  Claim C8. After one pass of \<open>cleanupStaleConnections\<close> at time \<open>now\<close>, no session of the
  registry has a closed or closing socket, and none has a liveness timestamp older than
  120000 ms, whatever the state of its socket. (The age test is
  \<^verbatim>\<open>client.lastPing && now - client.lastPing > STALE_TIMEOUT\<close>: it reads a timestamp that is
  the number 0 as absent, so the statement is about the timestamps other than 0, which
  are all the values \<^verbatim>\<open>Date.now()\<close> returns after 1 January 1970.) In a registry with one session per
  socket the sweep keeps exactly the sessions that fail the test.
\<close>

theorem stale_sweep_removes:
  "(\<forall>q \<in> set (clients (cleanupStaleConnections e h now)).
      readyState e (fst q) \<noteq> CLOSED \<and> readyState e (fst q) \<noteq> CLOSING \<and>
      (\<forall>t. lastPing (snd q) = Some t \<and> t \<noteq> 0 \<longrightarrow> now - t \<le> 120000)) \<and>
   (distinct (map fst (clients h)) \<longrightarrow>
      clients (cleanupStaleConnections e h now) = filter (\<lambda>q. \<not> isStale e now q) (clients h))"
proof -
  have keep: "\<not> isStale e now q" if "q \<in> set (clients (cleanupStaleConnections e h now))" for q
    using that by (auto simp: cleanupStaleConnections_def cleanupLoop_clients)
  have a: "\<forall>q \<in> set (clients (cleanupStaleConnections e h now)).
      readyState e (fst q) \<noteq> CLOSED \<and> readyState e (fst q) \<noteq> CLOSING \<and>
      (\<forall>t. lastPing (snd q) = Some t \<and> t \<noteq> 0 \<longrightarrow> now - t \<le> 120000)"
    using keep by (fastforce simp: isStale_def STALE_TIMEOUT_def)
  have b: "clients (cleanupStaleConnections e h now) = filter (\<lambda>q. \<not> isStale e now q) (clients h)"
    if d: "distinct (map fst (clients h))"
  proof -
    have "(fst q \<notin> fst ` set (filter (isStale e now) (clients h))) = (\<not> isStale e now q)"
      if "q \<in> set (clients h)" for q
      using distinct_fst_filter [OF d that] by simp
    then show ?thesis
      by (auto simp: cleanupStaleConnections_def cleanupLoop_clients intro!: filter_cong)
  qed
  from a b show ?thesis by blast
qed

theorem stale_sweep_removes_witness:
  "distinct (map fst (clients hubStale)) \<and>
   readyState envClosed2 2 = CLOSED \<and>
   readyState envClosed2 3 = OPEN \<and> lastPing passengerB = Some 1000 \<and>
   (200000 :: int) - 1000 > 120000 \<and>
   (3, passengerB) \<in> set (clients hubStale) \<and>
   (3, passengerB) \<notin> set (clients (cleanupStaleConnections envClosed2 hubStale 200000)) \<and>
   clients (cleanupStaleConnections envClosed2 hubStale 200000) =
     [(1, driver\<lparr>lastPing := Some 150000\<rparr>)]"
proof -
  have a: "distinct (map fst (clients hubStale))" by (simp add: hubStale_def)
  have b: "readyState envClosed2 2 = CLOSED" "readyState envClosed2 3 = OPEN"
    by (simp_all add: envClosed2_def)
  have c: "lastPing passengerB = Some 1000" by (simp add: passengerB_def)
  have d: "(3, passengerB) \<in> set (clients hubStale)" by (simp add: hubStale_def)
  note inst = stale_sweep_removes [of envClosed2 hubStale 200000]
  have gone: "(3, passengerB) \<notin> set (clients (cleanupStaleConnections envClosed2 hubStale 200000))"
  proof
    assume "(3, passengerB) \<in> set (clients (cleanupStaleConnections envClosed2 hubStale 200000))"
    with inst have "\<forall>t. lastPing (snd (3 :: WS, passengerB)) = Some t \<and> t \<noteq> 0 \<longrightarrow> 200000 - t \<le> 120000"
      by blast
    with c show False by simp
  qed
  from inst a have "clients (cleanupStaleConnections envClosed2 hubStale 200000) =
      filter (\<lambda>q. \<not> isStale envClosed2 200000 q) (clients hubStale)"
    by blast
  then have "clients (cleanupStaleConnections envClosed2 hubStale 200000) =
      [(1, driver\<lparr>lastPing := Some 150000\<rparr>)]"
    by (simp add: hubStale_def isStale_def envClosed2_def STALE_TIMEOUT_def driver_def
        passengerA_def passengerB_def)
  with a b c d gone show ?thesis by simp
qed

subsection \<open>What every run keeps\<close>

text \<open>
  The two side conditions of the statements above hold along every run: the registry has
  one session per socket (it is a \<^verbatim>\<open>Map\<close>), and while the clock does not read 0 every
  session carries a timestamp other than 0.
\<close>

lemma dispatch_distinct:
  assumes "distinct (map fst (clients h))"
  shows "distinct (map fst (clients (snd (dispatch e h now s cl data))))"
  using assms
  by (auto simp: dispatch_def wsSend_def Let_def AList.distinct_update broadcast_clients
      distinct_map_filter split: option.splits sum.splits)

lemma handleMessage_distinct:
  assumes "distinct (map fst (clients h))" and "handleMessage e h now s fr = Inr h'"
  shows "distinct (map fst (clients h'))"
proof -
  have "distinct (map fst (clients (snd (dispatch e h now s (map_of (clients h) s) data))))" for data
    using assms(1) by (rule dispatch_distinct)
  then show ?thesis
    using assms
    by (auto simp: handleMessage_def split: frame.splits if_splits prod.splits option.splits)
       (metis snd_conv)+
qed

lemma broadcast_distinct:
  "distinct (map fst (clients h)) \<Longrightarrow> distinct (map fst (clients (broadcastLocationUpdate e h u)))"
  by (simp add: broadcast_clients distinct_map_filter)

lemma cleanup_distinct:
  "distinct (map fst (clients h)) \<Longrightarrow> distinct (map fst (clients (cleanupStaleConnections e h now)))"
  by (simp add: cleanupStaleConnections_def cleanupLoop_clients distinct_map_filter)

lemma set_update_subset: "set (AList.update k v xs) \<subseteq> insert (k, v) (set xs)"
  by (induction xs) auto

lemma in_updateD: "q \<in> set (AList.update k v xs) \<Longrightarrow> q = (k, v) \<or> q \<in> set xs"
  using set_update_subset [of k v xs] by auto

lemma dispatch_stamped:
  assumes "stamped h" and "now \<noteq> 0"
  shows "stamped (snd (dispatch e h now s cl data))"
  using assms
  by (auto simp: dispatch_def Let_def wsSend_def stamped_def broadcast_clients
      split: option.splits sum.splits dest!: in_updateD)

lemma handleMessage_stamped:
  assumes "stamped h" and "now \<noteq> 0" and "handleMessage e h now s fr = Inr h'"
  shows "stamped h'"
proof -
  have d: "stamped (snd (dispatch e h now s (map_of (clients h) s) data))" for data
    using assms(1,2) by (rule dispatch_stamped)
  have f: "stamped (handleError e x s err)" if "stamped x" for x err
    using that by (simp add: stamped_def)
  show ?thesis
    using assms(1,3) d f
    by (auto simp: handleMessage_def split: frame.splits if_splits prod.splits option.splits)
       (metis snd_conv)+
qed

end
